theory Spec2Isabelle
  imports Complex_Main
begin

section \<open>The Underworld example notebooks\<close>

text \<open>
  The repository's executable content is a handful of Jupyter notebooks that drive the
  external Underworld library. The library is opaque here: its internal state is a type
  variable \<open>'w\<close> and each library call a notebook makes is a parameter, collected in a
  record; a call that returns a value returns it together with the state it leaves.
  Where the order or the number of the calls matters, the modelled state carries a log
  to which every call is appended. The meshes are the library's too: node coordinates,
  node counts and the special vertex sets are parameters. Every library call is taken
  to return: a call that raised, or never came back, would end the notebook there.
\<close>

subsection \<open>Python exceptions\<close>

text \<open>The exceptions the modelled cells can raise.\<close>

datatype py_error = IndexError | NameError | ZeroDivisionError | RuntimeError

subsection \<open>Python floats\<close>

text \<open>
  A Python float is an IEEE-754 binary64 value: a finite real, an infinity or a NaN
  (the two zeros compare equal and are not told apart here). The sum of two finite
  floats is the exact sum rounded to the nearest value with a 53-bit significand, ties
  to the even significand, and an infinity when the rounded value exceeds the largest
  finite float. Comparisons with a NaN are false.

  This type is used where a claim depends on rounding: the loop of the Rayleigh-Taylor
  notebook, which runs until an accumulated time passes a bound. The time-stepping
  cells of the thermal convection notebook are polymorphic in the type of times and
  only need its addition. The other cells read their floats as reals: their claims are
  about which value is stored where, about comparisons, and about formulas read over
  the reals.
\<close>

datatype py_float = Finite real | PosInf | NegInf | NaN

definition max_float :: real where
  "max_float = (2 ^ 53 - 1) * 2 ^ 971"

definition round_half_even :: "real \<Rightarrow> int" where
  "round_half_even y =
     (let f = \<lfloor>y\<rfloor>; r = y - of_int f in
      if r < 1 / 2 then f else if 1 / 2 < r then f + 1 else if even f then f else f + 1)"

text \<open>
  The spacing of the floats around \<open>x\<close>: \<open>2 ^ (e - 52)\<close> for
  \<open>2 ^ e \<le> \<bar>x\<bar> < 2 ^ (e + 1)\<close>, and the subnormal spacing \<open>2 ^ (-1074)\<close> below
  \<open>2 ^ (-1022)\<close>.
\<close>

definition spacing :: "real \<Rightarrow> real" where
  "spacing x = 2 powr (of_int (max \<lfloor>log 2 \<bar>x\<bar>\<rfloor> (- 1022)) - 52)"

definition round_to_float :: "real \<Rightarrow> py_float" where
  "round_to_float x =
     (if x = 0 then Finite 0
      else let r = of_int (round_half_even (x / spacing x)) * spacing x in
           if max_float < r then PosInf else if r < - max_float then NegInf else Finite r)"

fun float_add :: "py_float \<Rightarrow> py_float \<Rightarrow> py_float" where
  "float_add (Finite a) (Finite b) = round_to_float (a + b)"
| "float_add NaN _ = NaN"
| "float_add _ NaN = NaN"
| "float_add PosInf NegInf = NaN"
| "float_add NegInf PosInf = NaN"
| "float_add PosInf _ = PosInf"
| "float_add _ PosInf = PosInf"
| "float_add NegInf _ = NegInf"
| "float_add _ NegInf = NegInf"


text \<open>Python's \<^verbatim>\<open>0.\<close> and \<^verbatim>\<open>+\<close> on floats.\<close>

instantiation py_float :: "{zero, plus}"
begin

definition zero_py_float :: py_float where
  "zero_py_float = Finite 0"

definition plus_py_float :: "py_float \<Rightarrow> py_float \<Rightarrow> py_float" where
  "plus_py_float = float_add"

instance ..

end





subsection \<open>Thermal convection: the time-stepping cells\<close>








text \<open>\<^verbatim>\<open>time = 0.; step = 0; steps_end = 20\<close>, then the loop.\<close>

definition steps_end :: int where
  "steps_end = 20"













subsection \<open>Thermal convection: the initial temperature field\<close>

text \<open>
  The parameters of the notebook (the steady-state heat notebook has the same
  \<^verbatim>\<open>boxHeight\<close> and \<^verbatim>\<open>boxLength\<close>), Python's two-argument \<^verbatim>\<open>max\<close> and \<^verbatim>\<open>min\<close>
  (the first argument wins a tie), and the loop
  \<^verbatim>\<open>for index, coord in enumerate(mesh.data)\<close>, which writes each node twice: the
  perturbed profile, then its clamped value. The field \<open>data\<close> is the array that
  \<^verbatim>\<open>mesh.add_variable\<close> returned; an index outside it raises \<^verbatim>\<open>IndexError\<close>. The
  wall loops \<^verbatim>\<open>for index in bottomWall: temperatureField.data[index] = tempMax\<close> and
  \<^verbatim>\<open>for index in topWall: ... = tempMin\<close> follow.
\<close>

definition boxHeight :: real where "boxHeight = 1.0"
definition boxLength :: real where "boxLength = 2.0"
definition tempMin :: real where "tempMin = 0.0"
definition tempMax :: real where "tempMax = 1.0"
definition pertStrength :: real where "pertStrength = 0.2"
definition deltaTemp :: real where "deltaTemp = tempMax - tempMin"

definition py_max :: "'a::linorder \<Rightarrow> 'a \<Rightarrow> 'a" where
  "py_max a b = (if a < b then b else a)"

definition py_min :: "'a::linorder \<Rightarrow> 'a \<Rightarrow> 'a" where
  "py_min a b = (if b < a then b else a)"

fun init_temperature :: "(real \<times> real) list \<Rightarrow> nat \<Rightarrow> real list \<Rightarrow> py_error + real list" where
  "init_temperature [] index data = Inr data"
| "init_temperature (coord # rest) index data =
     (if index < length data then
        let pertCoeff = cos (pi * fst coord) * sin (pi * snd coord);
            data1 = data[index := tempMin + deltaTemp * (boxHeight - snd coord)
                                    + pertStrength * pertCoeff];
            data2 = data1[index := py_max tempMin (py_min tempMax (data1 ! index))]
        in init_temperature rest (Suc index) data2
      else Inl IndexError)"

fun assign_each :: "nat list \<Rightarrow> 'a \<Rightarrow> 'a list \<Rightarrow> py_error + 'a list" where
  "assign_each [] v data = Inr data"
| "assign_each (index # rest) v data =
     (if index < length data then assign_each rest v (data[index := v]) else Inl IndexError)"

definition wall_temperatures :: "nat list \<Rightarrow> nat list \<Rightarrow> real list \<Rightarrow> py_error + real list" where
  "wall_temperatures bottomWall topWall data =
     (case assign_each bottomWall tempMax data of
        Inl e \<Rightarrow> Inl e
      | Inr data1 \<Rightarrow> assign_each topWall tempMin data1)"

definition within_bounds :: "real list \<Rightarrow> bool" where
  "within_bounds data = (\<forall>v \<in> set data. tempMin \<le> v \<and> v \<le> tempMax)"

lemma clamp_bounds: "tempMin \<le> py_max tempMin (py_min tempMax v) \<and> py_max tempMin (py_min tempMax v) \<le> tempMax"
  by (simp add: py_max_def py_min_def tempMin_def tempMax_def)

lemma init_temperature_inv:
  "length data = index + length coords \<Longrightarrow>
   \<forall>j<index. tempMin \<le> data ! j \<and> data ! j \<le> tempMax \<Longrightarrow>
   \<exists>d. init_temperature coords index data = Inr d \<and> length d = length data \<and>
       (\<forall>j<length d. tempMin \<le> d ! j \<and> d ! j \<le> tempMax)"
proof (induction coords arbitrary: index data)
  case Nil
  then show ?case by simp
next
  case (Cons coord rest)
  let ?d1 = "data[index := tempMin + deltaTemp * (boxHeight - snd coord)
                 + pertStrength * (cos (pi * fst coord) * sin (pi * snd coord))]"
  let ?d2 = "?d1[index := py_max tempMin (py_min tempMax (?d1 ! index))]"
  from Cons.prems have lt: "index < length data" by simp
  have len: "length ?d2 = Suc index + length rest" using Cons.prems by simp
  have inv: "\<forall>j<Suc index. tempMin \<le> ?d2 ! j \<and> ?d2 ! j \<le> tempMax"
  proof (intro allI impI)
    fix j assume "j < Suc index"
    then consider "j = index" | "j < index" by linarith
    then show "tempMin \<le> ?d2 ! j \<and> ?d2 ! j \<le> tempMax"
    proof cases
      case 1
      then show ?thesis using lt clamp_bounds by simp
    next
      case 2
      then show ?thesis using Cons.prems(2) by simp
    qed
  qed
  from Cons.IH [OF len inv] lt show ?case by (simp add: Let_def)
qed

lemma assign_each_inv:
  "\<forall>i \<in> set idx. i < length data \<Longrightarrow> 
   \<exists>d. assign_each idx v data = Inr d \<and> length d = length data \<and>
       (\<forall>j<length d. d ! j = (if j \<in> set idx then v else data ! j))"
proof (induction idx arbitrary: data)
  case Nil
  then show ?case by simp
next
  case (Cons i rest)
  then have "\<forall>k \<in> set rest. k < length (data[i := v])" by simp
  from Cons.IH [OF this] obtain d where
    d: "assign_each rest v (data[i := v]) = Inr d" "length d = length data"
       "\<forall>j<length d. d ! j = (if j \<in> set rest then v else data[i := v] ! j)"
    by auto
  with Cons.prems show ?case by (auto simp: nth_list_update)
qed

text \<open>
  C8. When the temperature field has one entry per mesh node and the wall index sets are
  node indices of the mesh, the initialisation loop returns a field whose every entry
  lies in \<open>[tempMin, tempMax] = [0, 1]\<close> (each entry was written through
  \<^verbatim>\<open>max(tempMin, min(tempMax, .))\<close>), and the wall assignments that follow return a
  field with the same property.
\<close>

theorem temperature_within_bounds:
  assumes "length data0 = length mesh_data"
    and "\<forall>i \<in> set bottomWall \<union> set topWall. i < length mesh_data"
  shows "\<exists>d1 d2. init_temperature mesh_data 0 data0 = Inr d1 \<and> within_bounds d1 \<and>
           wall_temperatures bottomWall topWall d1 = Inr d2 \<and> within_bounds d2 \<and>
           tempMin = 0 \<and> tempMax = 1"
proof -
  from init_temperature_inv [of data0 0 mesh_data] assms(1) obtain d1 where
    d1: "init_temperature mesh_data 0 data0 = Inr d1" "length d1 = length data0"
        "\<forall>j<length d1. tempMin \<le> d1 ! j \<and> d1 ! j \<le> tempMax"
    by auto
  from assms d1(2) have "\<forall>i \<in> set bottomWall. i < length d1" by simp
  from assign_each_inv [OF this, of tempMax] obtain b where
    b: "assign_each bottomWall tempMax d1 = Inr b" "length b = length d1"
       "\<forall>j<length b. b ! j = (if j \<in> set bottomWall then tempMax else d1 ! j)"
    by auto
  from assms d1(2) b(2) have "\<forall>i \<in> set topWall. i < length b" by simp
  from assign_each_inv [OF this, of tempMin] obtain d2 where
    d2: "assign_each topWall tempMin b = Inr d2" "length d2 = length b"
       "\<forall>j<length d2. d2 ! j = (if j \<in> set topWall then tempMin else b ! j)"
    by auto
  have w1: "within_bounds d1"
    using d1(3) by (auto simp: within_bounds_def in_set_conv_nth)
  have "\<forall>j<length d2. tempMin \<le> d2 ! j \<and> d2 ! j \<le> tempMax"
    using d2(2,3) b(2,3) d1(3) by (auto simp: tempMin_def tempMax_def)
  then have w2: "within_bounds d2"
    by (auto simp: within_bounds_def in_set_conv_nth)
  show ?thesis
    using d1(1) w1 b(1) d2(1) w2 by (simp add: wall_temperatures_def tempMin_def tempMax_def)
qed

theorem temperature_within_bounds_witness:
  "length [5, 5, 5, 5 :: real] = length [(0, 0), (2, 0), (0, 1), (2, 1 :: real) :: real \<times> real] \<and>
   (\<exists>d1 d2. init_temperature [(0, 0), (2, 0), (0, 1), (2, 1)] 0 [5, 5, 5, 5] = Inr d1 \<and>
      within_bounds d1 \<and> wall_temperatures [0, 1] [2, 3] d1 = Inr d2 \<and> within_bounds d2 \<and>
      tempMin = 0 \<and> tempMax = 1)"
  using temperature_within_bounds [of "[5, 5, 5, 5]" "[(0, 0), (2, 0), (0, 1), (2, 1)]" "[0, 1]" "[2, 3]"]
  by simp

subsection \<open>Thermal convection: the order of the cells\<close>

text \<open>
  Which object exists when: the notebook is run over a namespace that maps each bound
  name to the position, in the history of the run, of the event that created its
  object. Evaluating an unbound name raises \<^verbatim>\<open>NameError\<close>. An event is the
  construction of a library object from the objects at the given positions, the binding
  of a plain Python value, or a call made for its effect. Each cell is the list of its
  statements, in the notebook's order; the names a statement evaluates are listed with
  it. The optional display set-up of the first cell and the variables of the
  \<^verbatim>\<open>for\<close> loops, which are used only inside their loops, are left out, and each
  \<^verbatim>\<open>for\<close> loop over the mesh is one event. The \<^verbatim>\<open>while\<close> loop is the loop of the
  time-stepping cells above, reduced to the names it evaluates.
\<close>

datatype uw_kind =
    FeMesh_Cartesian | MeshVariable | Function | IndexSet | DirichletCondition
  | Figure | Stokes | Solver | AdvectionDiffusion

datatype event =
    Construct uw_kind "nat list"
  | Value "nat list"
  | Call string "nat list"

record namespace =
  globals :: "string \<rightharpoonup> nat"
  history :: "event list"

definition lookup :: "namespace \<Rightarrow> string \<Rightarrow> py_error + nat" where
  "lookup s name = (case globals s name of None \<Rightarrow> Inl NameError | Some i \<Rightarrow> Inr i)"

fun lookups :: "namespace \<Rightarrow> string list \<Rightarrow> py_error + nat list" where
  "lookups s [] = Inr []"
| "lookups s (name # names) =
     (case lookup s name of
        Inl e \<Rightarrow> Inl e
      | Inr i \<Rightarrow> (case lookups s names of Inl e \<Rightarrow> Inl e | Inr is \<Rightarrow> Inr (i # is)))"

definition bind_name :: "string \<Rightarrow> event \<Rightarrow> namespace \<Rightarrow> namespace" where
  "bind_name target ev s =
     \<lparr>globals = (globals s)(target \<mapsto> length (history s)), history = history s @ [ev]\<rparr>"

definition construct :: "string \<Rightarrow> uw_kind \<Rightarrow> string list \<Rightarrow> namespace \<Rightarrow> py_error + namespace" where
  "construct target kind uses s =
     (case lookups s uses of Inl e \<Rightarrow> Inl e | Inr refs \<Rightarrow> Inr (bind_name target (Construct kind refs) s))"

definition assign :: "string \<Rightarrow> string list \<Rightarrow> namespace \<Rightarrow> py_error + namespace" where
  "assign target uses s =
     (case lookups s uses of Inl e \<Rightarrow> Inl e | Inr refs \<Rightarrow> Inr (bind_name target (Value refs) s))"

definition call :: "string \<Rightarrow> string list \<Rightarrow> namespace \<Rightarrow> py_error + namespace" where
  "call method uses s =
     (case lookups s uses of
        Inl e \<Rightarrow> Inl e
      | Inr refs \<Rightarrow> Inr (s\<lparr>history := history s @ [Call method refs]\<rparr>))"

fun run :: "(namespace \<Rightarrow> py_error + namespace) list \<Rightarrow> namespace \<Rightarrow> py_error + namespace" where
  "run [] s = Inr s"
| "run (stmt # stmts) s = (case stmt s of Inl e \<Rightarrow> Inl e | Inr s' \<Rightarrow> run stmts s')"

definition cell_imports :: "(namespace \<Rightarrow> py_error + namespace) list" where
  "cell_imports =
     [assign ''uw'' [], assign ''fn'' [], assign ''vis'' [], assign ''math'' []]"

definition cell_parameters :: "(namespace \<Rightarrow> py_error + namespace) list" where
  "cell_parameters =
     [assign ''boxHeight'' [], assign ''boxLength'' [], assign ''res'' [],
      assign ''tempMin'' [], assign ''tempMax'' []]"

definition cell_mesh :: "(namespace \<Rightarrow> py_error + namespace) list" where
  "cell_mesh =
     [construct ''mesh'' FeMesh_Cartesian [''uw'', ''res'', ''boxLength'', ''boxHeight''],
      construct ''velocityField'' MeshVariable [''mesh''],
      construct ''pressureField'' MeshVariable [''mesh''],
      construct ''temperatureField'' MeshVariable [''mesh''],
      construct ''temperatureDotField'' MeshVariable [''mesh''],
      call ''velocityField.data[:] ='' [''velocityField''],
      call ''pressureField.data[:] ='' [''pressureField''],
      call ''temperatureDotField.data[:] ='' [''temperatureDotField'']]"

definition cell_functions :: "(namespace \<Rightarrow> py_error + namespace) list" where
  "cell_functions =
     [assign ''viscosity'' [],
      assign ''Ra'' [],
      construct ''densityFn'' Function [''Ra'', ''temperatureField''],
      assign ''z_hat'' [],
      construct ''buoyancyFn'' Function [''densityFn'', ''z_hat'']]"

definition cell_perturbation :: "(namespace \<Rightarrow> py_error + namespace) list" where
  "cell_perturbation =
     [assign ''pertStrength'' [],
      assign ''deltaTemp'' [''tempMax'', ''tempMin''],
      call ''temperatureField.data[index] ='' 
        [''mesh'', ''math'', ''temperatureField'', ''tempMin'', ''deltaTemp'', ''boxHeight'',
         ''pertStrength'', ''tempMax'']]"

definition cell_walls :: "(namespace \<Rightarrow> py_error + namespace) list" where
  "cell_walls =
     [construct ''bottomWall'' IndexSet [''mesh''],
      construct ''topWall'' IndexSet [''mesh''],
      construct ''leftWall'' IndexSet [''mesh''],
      construct ''rightWall'' IndexSet [''mesh''],
      call ''temperatureField.data[index] ='' [''bottomWall'', ''temperatureField'', ''tempMax''],
      call ''temperatureField.data[index] ='' [''topWall'', ''temperatureField'', ''tempMin''],
      construct ''iWalls'' IndexSet [''leftWall'', ''rightWall''],
      construct ''jWalls'' IndexSet [''bottomWall'', ''topWall'']]"

definition cell_conditions :: "(namespace \<Rightarrow> py_error + namespace) list" where
  "cell_conditions =
     [construct ''velBC'' DirichletCondition [''uw'', ''velocityField'', ''iWalls'', ''jWalls''],
      construct ''tempBC'' DirichletCondition [''uw'', ''temperatureField'', ''jWalls'']]"

definition cell_figure :: "(namespace \<Rightarrow> py_error + namespace) list" where
  "cell_figure =
     [construct ''figtemp'' Figure [''vis''],
      call ''figtemp.append'' [''figtemp'', ''vis'', ''mesh'', ''temperatureField''],
      call ''figtemp.append'' [''figtemp'', ''vis'', ''mesh''],
      call ''figtemp.show'' [''figtemp'']]"

definition cell_stokes :: "(namespace \<Rightarrow> py_error + namespace) list" where
  "cell_stokes =
     [construct ''stokes'' Stokes
        [''uw'', ''velocityField'', ''pressureField'', ''velBC'', ''viscosity'', ''buoyancyFn''],
      construct ''solver'' Solver [''uw'', ''stokes'']]"

definition cell_advDiff :: "(namespace \<Rightarrow> py_error + namespace) list" where
  "cell_advDiff =
     [construct ''advDiff'' AdvectionDiffusion
        [''uw'', ''temperatureField'', ''temperatureDotField'', ''velocityField'', ''tempBC'']]"

definition cell_update :: "(namespace \<Rightarrow> py_error + namespace) list" where
  "cell_update = [assign ''update'' []]"

text \<open>
  One call of \<^verbatim>\<open>update()\<close>: its body uses \<^verbatim>\<open>advDiff\<close>, \<^verbatim>\<open>time\<close> and \<^verbatim>\<open>step\<close>;
  the loop then rebinds \<^verbatim>\<open>time\<close> and \<^verbatim>\<open>step\<close> to the returned pair.
\<close>

definition update_calls :: "(namespace \<Rightarrow> py_error + namespace) list" where
  "update_calls =
     [call ''update'' [''update''],
      call ''advDiff.get_max_dt'' [''advDiff''],
      call ''advDiff.integrate'' [''advDiff''],
      assign ''time'' [''time''],
      assign ''step'' [''step'']]"

function loop_calls :: "int \<Rightarrow> int \<Rightarrow> namespace \<Rightarrow> py_error + namespace" where
  "loop_calls k k_end s =
     (case lookups s [''step'', ''steps_end''] of
        Inl e \<Rightarrow> Inl e
      | Inr _ \<Rightarrow>
          if k < k_end then
            (case run (call ''solver.solve'' [''solver''] # update_calls) s of
               Inl e \<Rightarrow> Inl e
             | Inr s' \<Rightarrow> loop_calls (k + 1) k_end s')
          else Inr s)"
  by pat_completeness auto
termination
  by (relation "measure (\<lambda>(k, k_end, s). nat (k_end - k))") auto

declare loop_calls.simps [simp del]

definition cell_loop :: "(namespace \<Rightarrow> py_error + namespace) list" where
  "cell_loop =
     [assign ''time'' [], assign ''step'' [], assign ''steps_end'' [], loop_calls 0 steps_end]"

definition cells_before_loop :: "(namespace \<Rightarrow> py_error + namespace) list" where
  "cells_before_loop =
     cell_imports @ cell_parameters @ cell_mesh @ cell_functions @ cell_perturbation @
     cell_walls @ cell_conditions @ cell_figure @ cell_stokes @ cell_advDiff @ cell_update"

definition thermal_convection_notebook :: "py_error + namespace" where
  "thermal_convection_notebook =
     run (cells_before_loop @ cell_loop) \<lparr>globals = Map.empty, history = []\<rparr>"

definition created_before :: "namespace \<Rightarrow> string \<Rightarrow> string \<Rightarrow> bool" where
  "created_before s a b =
     (case (globals s a, globals s b) of (Some i, Some j) \<Rightarrow> i < j | _ \<Rightarrow> False)"

definition consumes :: "namespace \<Rightarrow> string \<Rightarrow> string \<Rightarrow> bool" where
  "consumes s b a =
     (case (globals s a, globals s b) of
        (Some i, Some j) \<Rightarrow>
          (case drop j (history s) of
             Construct kind refs # _ \<Rightarrow> i \<in> set refs
           | _ \<Rightarrow> False)
      | _ \<Rightarrow> False)"

fun positions_from :: "nat \<Rightarrow> (event \<Rightarrow> bool) \<Rightarrow> event list \<Rightarrow> nat list" where
  "positions_from k P [] = []"
| "positions_from k P (ev # h) =
     (if P ev then k # positions_from (Suc k) P h else positions_from (Suc k) P h)"

fun is_construct :: "uw_kind \<Rightarrow> event \<Rightarrow> bool" where
  "is_construct kind (Construct kind' refs) = (kind = kind')"
| "is_construct kind _ = False"

fun is_call :: "string \<Rightarrow> event \<Rightarrow> bool" where
  "is_call method (Call method' refs) = (method = method')"
| "is_call method _ = False"

definition created_before_call :: "namespace \<Rightarrow> string \<Rightarrow> string \<Rightarrow> bool" where
  "created_before_call s a method =
     (case (globals s a, positions_from 0 (is_call method) (history s)) of
        (Some i, k # _) \<Rightarrow> i < k
      | _ \<Rightarrow> False)"

definition order_of_construction :: "namespace \<Rightarrow> bool" where
  "order_of_construction s =
     (created_before s ''mesh'' ''velocityField'' \<and>
      created_before s ''mesh'' ''pressureField'' \<and>
      created_before s ''mesh'' ''temperatureField'' \<and>
      created_before s ''mesh'' ''temperatureDotField'' \<and>
      map Some (positions_from 0 (is_construct DirichletCondition) (history s)) =
        [globals s ''velBC'', globals s ''tempBC''] \<and>
      consumes s ''velBC'' ''velocityField'' \<and> created_before s ''velocityField'' ''velBC'' \<and>
      consumes s ''tempBC'' ''temperatureField'' \<and>
      created_before s ''temperatureField'' ''tempBC'' \<and>
      created_before s ''mesh'' ''velBC'' \<and> created_before s ''mesh'' ''tempBC'' \<and>
      consumes s ''stokes'' ''velBC'' \<and> created_before s ''velBC'' ''stokes'' \<and>
      consumes s ''advDiff'' ''tempBC'' \<and> created_before s ''tempBC'' ''advDiff'')"

definition ready_for_loop :: "namespace \<Rightarrow> bool" where
  "ready_for_loop s =
     (list_all (\<lambda>name. case globals s name of None \<Rightarrow> False | Some i \<Rightarrow> i < length (history s))
        [''steps_end'', ''solver'', ''update'', ''advDiff'', ''stokes'', ''velBC'', ''tempBC'',
         ''velocityField'', ''temperatureField'', ''time'', ''step''] \<and>
      positions_from 0 (is_call ''solver.solve'') (history s) = [])"

lemma run_append:
  "run (xs @ ys) s = (case run xs s of Inl e \<Rightarrow> Inl e | Inr s' \<Rightarrow> run ys s')"
  by (induction xs arbitrary: s) (auto split: sum.splits)

lemma positions_from_append:
  "positions_from k P (h @ ext) = positions_from k P h @ positions_from (k + length h) P ext"
  by (induction h arbitrary: k) simp_all

lemma before_loop:
  "case run (cells_before_loop @ [assign ''time'' [], assign ''step'' [], assign ''steps_end'' []])
          \<lparr>globals = Map.empty, history = []\<rparr> of
     Inl e \<Rightarrow> False
   | Inr s \<Rightarrow> order_of_construction s \<and> ready_for_loop s"
  by code_simp

lemma iteration_effect:
  assumes "globals s ''solver'' = Some so" "globals s ''update'' = Some up"
    "globals s ''advDiff'' = Some ad" "globals s ''time'' = Some t" "globals s ''step'' = Some st"
  shows "run (call ''solver.solve'' [''solver''] # update_calls) s =
     Inr \<lparr>globals = (globals s)(''time'' \<mapsto> length (history s) + 4,
                                ''step'' \<mapsto> length (history s) + 5),
          history = history s @
            [Call ''solver.solve'' [so], Call ''update'' [up], Call ''advDiff.get_max_dt'' [ad],
             Call ''advDiff.integrate'' [ad], Value [t], Value [st]]\<rparr>"
  using assms
  by (simp add: update_calls_def call_def assign_def lookup_def bind_name_def eval_nat_numeral)

lemma loop_calls_effect:
  assumes "globals s ''solver'' = Some so" "globals s ''update'' \<noteq> None"
    "globals s ''advDiff'' \<noteq> None" "globals s ''time'' \<noteq> None" "globals s ''step'' \<noteq> None"
    "globals s ''steps_end'' \<noteq> None"
  shows "\<exists>s' ext. loop_calls i e s = Inr s' \<and> history s' = history s @ ext \<and>
           (\<forall>name. name \<noteq> ''time'' \<and> name \<noteq> ''step'' \<longrightarrow> globals s' name = globals s name) \<and>
           (\<forall>k kind. positions_from k (is_construct kind) ext = []) \<and>
           (i < e \<longrightarrow> (\<exists>rest. ext = Call ''solver.solve'' [so] # rest))"
  using assms
proof (induction i e s rule: loop_calls.induct)
  case (1 k k_end s)
  from "1.prems" obtain up ad t st se where
    b: "globals s ''update'' = Some up" "globals s ''advDiff'' = Some ad"
       "globals s ''time'' = Some t" "globals s ''step'' = Some st"
       "globals s ''steps_end'' = Some se"
    by auto
  have lk: "lookups s [''step'', ''steps_end''] = Inr [st, se]"
    using b by (simp add: lookup_def)
  show ?case
  proof (cases "k < k_end")
    case False
    then show ?thesis
      by (subst loop_calls.simps) (simp add: lk del: lookups.simps)
  next
    case True
    let ?new = "[Call ''solver.solve'' [so], Call ''update'' [up], Call ''advDiff.get_max_dt'' [ad],
             Call ''advDiff.integrate'' [ad], Value [t], Value [st]]"
    let ?s1 = "\<lparr>globals = (globals s)(''time'' \<mapsto> length (history s) + 4,
                                ''step'' \<mapsto> length (history s) + 5),
          history = history s @ ?new\<rparr>"
    have it: "run (call ''solver.solve'' [''solver''] # update_calls) s = Inr ?s1"
      using iteration_effect [OF "1.prems"(1) b(1-4)] .
    have "\<exists>s' ext. loop_calls (k + 1) k_end ?s1 = Inr s' \<and> history s' = history ?s1 @ ext \<and>
           (\<forall>name. name \<noteq> ''time'' \<and> name \<noteq> ''step'' \<longrightarrow> globals s' name = globals ?s1 name) \<and>
           (\<forall>k kind. positions_from k (is_construct kind) ext = []) \<and>
           (k + 1 < k_end \<longrightarrow> (\<exists>rest. ext = Call ''solver.solve'' [so] # rest))"
      using "1.prems" by (intro "1.IH" [OF lk True it]) simp_all
    then obtain s' ext where
      r: "loop_calls (k + 1) k_end ?s1 = Inr s'" "history s' = history ?s1 @ ext"
         "\<forall>name. name \<noteq> ''time'' \<and> name \<noteq> ''step'' \<longrightarrow> globals s' name = globals ?s1 name"
         "\<forall>k kind. positions_from k (is_construct kind) ext = []"
      by blast
    have "loop_calls k k_end s = Inr s'"
      by (subst loop_calls.simps) (simp add: lk True it r(1) del: lookups.simps run.simps)
    moreover have "history s' = history s @ (?new @ ext)"
      using r(2) by simp
    moreover have "\<forall>name. name \<noteq> ''time'' \<and> name \<noteq> ''step'' \<longrightarrow> globals s' name = globals s name"
      using r(3) by simp
    moreover have "\<forall>k kind. positions_from k (is_construct kind) (?new @ ext) = []"
      using r(4) by simp
    ultimately show ?thesis using True by auto
  qed
qed

text \<open>
  C7. The thermal convection notebook runs through its time-stepping cell without a
  \<^verbatim>\<open>NameError\<close>, and in the namespace it ends with: the mesh was created before each
  of its four mesh variables; the only Dirichlet conditions are \<^verbatim>\<open>velBC\<close> and
  \<^verbatim>\<open>tempBC\<close>, each built from a mesh variable created before it (and after the
  mesh); the Stokes system was built from \<^verbatim>\<open>velBC\<close> and the advection-diffusion
  system from \<^verbatim>\<open>tempBC\<close>, each after its condition; and \<^verbatim>\<open>stokes\<close>,
  \<^verbatim>\<open>solver\<close> and \<^verbatim>\<open>advDiff\<close> were all created before the first
  \<^verbatim>\<open>solver.solve()\<close> of the loop.
\<close>

theorem constructed_in_order:
  "case thermal_convection_notebook of
     Inl e \<Rightarrow> False
   | Inr s \<Rightarrow>
       created_before s ''mesh'' ''velocityField'' \<and>
       created_before s ''mesh'' ''pressureField'' \<and>
       created_before s ''mesh'' ''temperatureField'' \<and>
       created_before s ''mesh'' ''temperatureDotField'' \<and>
       map Some (positions_from 0 (is_construct DirichletCondition) (history s)) =
         [globals s ''velBC'', globals s ''tempBC''] \<and>
       consumes s ''velBC'' ''velocityField'' \<and> created_before s ''velocityField'' ''velBC'' \<and>
       consumes s ''tempBC'' ''temperatureField'' \<and>
       created_before s ''temperatureField'' ''tempBC'' \<and>
       created_before s ''mesh'' ''velBC'' \<and> created_before s ''mesh'' ''tempBC'' \<and>
       consumes s ''stokes'' ''velBC'' \<and> created_before s ''velBC'' ''stokes'' \<and>
       consumes s ''advDiff'' ''tempBC'' \<and> created_before s ''tempBC'' ''advDiff'' \<and>
       created_before_call s ''stokes'' ''solver.solve'' \<and>
       created_before_call s ''solver'' ''solver.solve'' \<and>
       created_before_call s ''advDiff'' ''solver.solve''"
proof -
  let ?pre = "run (cells_before_loop @ [assign ''time'' [], assign ''step'' [], assign ''steps_end'' []])
          \<lparr>globals = Map.empty, history = []\<rparr>"
  from before_loop obtain s0 where
    s0: "?pre = Inr s0" "order_of_construction s0" "ready_for_loop s0"
    by (auto split: sum.splits)
  have "thermal_convection_notebook =
      run ((cells_before_loop @ [assign ''time'' [], assign ''step'' [], assign ''steps_end'' []])
           @ [loop_calls 0 steps_end]) \<lparr>globals = Map.empty, history = []\<rparr>"
    by (simp add: thermal_convection_notebook_def cell_loop_def)
  also have "\<dots> = loop_calls 0 steps_end s0"
    by (subst run_append) (simp add: s0(1) split: sum.splits)
  finally have nb: "thermal_convection_notebook = loop_calls 0 steps_end s0" .
  from s0(3) obtain so where so: "globals s0 ''solver'' = Some so"
    by (auto simp: ready_for_loop_def split: option.splits)
  from s0(3) have bound: "globals s0 ''update'' \<noteq> None" "globals s0 ''advDiff'' \<noteq> None"
    "globals s0 ''time'' \<noteq> None" "globals s0 ''step'' \<noteq> None" "globals s0 ''steps_end'' \<noteq> None"
    by (auto simp: ready_for_loop_def split: option.splits)
  from loop_calls_effect [OF so bound, of 0 steps_end] obtain s ext rest where
    s: "loop_calls 0 steps_end s0 = Inr s" "history s = history s0 @ ext"
       "\<forall>name. name \<noteq> ''time'' \<and> name \<noteq> ''step'' \<longrightarrow> globals s name = globals s0 name"
       "\<forall>k kind. positions_from k (is_construct kind) ext = []"
       "ext = Call ''solver.solve'' [so] # rest"
    by (auto simp: steps_end_def)
  have g: "globals s ''mesh'' = globals s0 ''mesh''"
    "globals s ''velocityField'' = globals s0 ''velocityField''"
    "globals s ''pressureField'' = globals s0 ''pressureField''"
    "globals s ''temperatureField'' = globals s0 ''temperatureField''"
    "globals s ''temperatureDotField'' = globals s0 ''temperatureDotField''"
    "globals s ''velBC'' = globals s0 ''velBC''"
    "globals s ''tempBC'' = globals s0 ''tempBC''"
    "globals s ''stokes'' = globals s0 ''stokes''"
    "globals s ''solver'' = globals s0 ''solver''"
    "globals s ''advDiff'' = globals s0 ''advDiff''"
    using s(3) by simp_all
  have cb: "created_before s a b = created_before s0 a b"
    if "globals s a = globals s0 a" "globals s b = globals s0 b" for a b
    using that by (simp add: created_before_def)
  have cs: "consumes s b a"
    if "consumes s0 b a" "globals s a = globals s0 a" "globals s b = globals s0 b"
       "case globals s0 b of None \<Rightarrow> False | Some j \<Rightarrow> j < length (history s0)" for a b
    using that by (auto simp: consumes_def s(2) split: option.splits list.splits event.splits)
  have cc: "created_before_call s a ''solver.solve''"
    if "globals s a = globals s0 a"
       "case globals s0 a of None \<Rightarrow> False | Some j \<Rightarrow> j < length (history s0)" for a
    using that s0(3)
    by (auto simp: created_before_call_def ready_for_loop_def s(2,5) positions_from_append
        split: option.splits)
  have lt: "case globals s0 ''velBC'' of None \<Rightarrow> False | Some j \<Rightarrow> j < length (history s0)"
    "case globals s0 ''tempBC'' of None \<Rightarrow> False | Some j \<Rightarrow> j < length (history s0)"
    "case globals s0 ''stokes'' of None \<Rightarrow> False | Some j \<Rightarrow> j < length (history s0)"
    "case globals s0 ''solver'' of None \<Rightarrow> False | Some j \<Rightarrow> j < length (history s0)"
    "case globals s0 ''advDiff'' of None \<Rightarrow> False | Some j \<Rightarrow> j < length (history s0)"
    using s0(3) by (simp_all add: ready_for_loop_def)
  have dc: "positions_from 0 (is_construct DirichletCondition) (history s) =
      positions_from 0 (is_construct DirichletCondition) (history s0)"
    by (simp add: s(2,4) positions_from_append)
  show ?thesis
    using s0(2) unfolding nb s(1) order_of_construction_def
    by (simp add: cb cs cc g lt dc)
qed

subsection \<open>Steady-state heat: the field handed to the solver\<close>

text \<open>
  Mesh variables are objects: the Dirichlet condition and the system hold a reference to
  \<^verbatim>\<open>temperatureField\<close>, not a copy of its data, and the notebook writes the wall values
  after it has built the condition. The data arrays therefore live in a heap (a list of
  arrays, addressed by position), and the library objects hold addresses.

  The mesh is the library's: the number of its nodes is the length of the array that
  \<^verbatim>\<open>mesh.add_variable\<close> returns (\<open>data0\<close> below, whose content the library chooses), and
  its special sets \<^verbatim>\<open>Bottom_VertexSet\<close> and \<^verbatim>\<open>Top_VertexSet\<close> are parameters. An index
  set is a set of node indices, and \<^verbatim>\<open>+\<close> on index sets is their union.
\<close>

record dirichlet_condition =
  variable :: nat
  indexSetsPerDof :: "nat set list"

record steady_state_heat =
  temperatureField :: nat
  fn_diffusivity :: real
  conditions :: dirichlet_condition

record heat_model =
  heap :: "real list list"
  heatequation :: steady_state_heat
  solved :: nat

text \<open>\<^verbatim>\<open>data[:] = v\<close> and \<^verbatim>\<open>data[indexSet] = v\<close> on a numpy array.\<close>

definition assign_all :: "real \<Rightarrow> real list \<Rightarrow> real list" where
  "assign_all v data = map (\<lambda>_. v) data"

definition assign_at :: "nat set \<Rightarrow> real \<Rightarrow> real list \<Rightarrow> py_error + real list" where
  "assign_at S v data =
     (if \<forall>i \<in> S. i < length data
      then Inr (map (\<lambda>i. if i \<in> S then v else data ! i) [0..<length data])
      else Inl IndexError)"

text \<open>
  The cells from \<^verbatim>\<open>mesh.add_variable\<close> to \<^verbatim>\<open>uw.systems.Solver(heatequation)\<close>, in the
  notebook's order.
\<close>

definition cells_before_solve :: "real list \<Rightarrow> nat set \<Rightarrow> nat set \<Rightarrow> py_error + heat_model" where
  "cells_before_solve data0 botWalls topWalls =
     (let temperatureField_ref = 0;
          heap0 = [data0];
          heap1 = heap0[temperatureField_ref := assign_all 0.0 (heap0 ! temperatureField_ref)];
          bcWalls = botWalls \<union> topWalls;
          tempBC = \<lparr>variable = temperatureField_ref, indexSetsPerDof = [bcWalls]\<rparr>
      in case assign_at botWalls 1.0 (heap1 ! temperatureField_ref) of
           Inl e \<Rightarrow> Inl e
         | Inr bot_set \<Rightarrow>
             (let heap2 = heap1[temperatureField_ref := bot_set]
              in case assign_at topWalls 0.0 (heap2 ! temperatureField_ref) of
                   Inl e \<Rightarrow> Inl e
                 | Inr top_set \<Rightarrow>
                     (let heap3 = heap2[temperatureField_ref := top_set]
                      in Inr \<lparr>heap = heap3,
                              heatequation = \<lparr>temperatureField = temperatureField_ref,
                                              fn_diffusivity = 1.0,
                                              conditions = tempBC\<rparr>,
                              solved = 0\<rparr>)))"

text \<open>
  \<^verbatim>\<open>heatsolver.solve()\<close> is the library's: it may rewrite the heap, and the model counts
  the calls.
\<close>

definition heatsolver_solve :: "(heat_model \<Rightarrow> real list list) \<Rightarrow> heat_model \<Rightarrow> heat_model" where
  "heatsolver_solve solve m = m\<lparr>heap := solve m, solved := solved m + 1\<rparr>"

definition steady_state_heat_notebook ::
  "(heat_model \<Rightarrow> real list list) \<Rightarrow> real list \<Rightarrow> nat set \<Rightarrow> nat set \<Rightarrow> py_error + heat_model" where
  "steady_state_heat_notebook solve data0 botWalls topWalls =
     (case cells_before_solve data0 botWalls topWalls of
        Inl e \<Rightarrow> Inl e
      | Inr m \<Rightarrow> Inr (heatsolver_solve solve m))"

lemma assign_at_nth:
  "assign_at S v data = Inr d \<Longrightarrow> i < length data \<Longrightarrow> d ! i = (if i \<in> S then v else data ! i)"
  by (auto simp: assign_at_def split: if_splits)

lemma assign_at_length: "assign_at S v data = Inr d \<Longrightarrow> length d = length data"
  by (auto simp: assign_at_def split: if_splits)

lemma assign_at_ok: "\<forall>i \<in> S. i < length data \<Longrightarrow> \<exists>d. assign_at S v data = Inr d"
  by (simp add: assign_at_def)

text \<open>
  C2. When the two wall sets are disjoint sets of node indices of the mesh, the notebook
  reaches its single \<^verbatim>\<open>heatsolver.solve()\<close> with a temperature field that holds 1.0 on
  every bottom-wall node, 0.0 on every top-wall node and 0.0 on every other node; the
  system handed to the solver refers to that field, has diffusivity 1.0, and its
  condition is the Dirichlet condition on that same field over the union of the two
  walls.
\<close>

theorem field_before_solve:
  assumes "botWalls \<inter> topWalls = {}"
    and "\<forall>i \<in> botWalls \<union> topWalls. i < length data0"
  shows "\<exists>m T. cells_before_solve data0 botWalls topWalls = Inr m \<and>
           steady_state_heat_notebook solve data0 botWalls topWalls = Inr (heatsolver_solve solve m) \<and>
           solved m = 0 \<and> solved (heatsolver_solve solve m) = 1 \<and>
           heap m = [T] \<and> temperatureField (heatequation m) = 0 \<and>
           length T = length data0 \<and>
           (\<forall>i \<in> botWalls. T ! i = 1) \<and>
           (\<forall>i \<in> topWalls. T ! i = 0) \<and>
           (\<forall>i < length T. i \<notin> botWalls \<and> i \<notin> topWalls \<longrightarrow> T ! i = 0) \<and>
           fn_diffusivity (heatequation m) = 1 \<and>
           variable (conditions (heatequation m)) = temperatureField (heatequation m) \<and>
           indexSetsPerDof (conditions (heatequation m)) = [botWalls \<union> topWalls]"
proof -
  let ?z = "assign_all 0 data0"
  have lz: "length ?z = length data0" by (simp add: assign_all_def)
  from assms(2) lz obtain b where b: "assign_at botWalls 1 ?z = Inr b"
    using assign_at_ok [of botWalls ?z 1] by auto
  have lb: "length b = length data0" using assign_at_length [OF b] lz by simp
  from assms(2) lb obtain T where T: "assign_at topWalls 0 b = Inr T"
    using assign_at_ok [of topWalls b 0] by auto
  have lT: "length T = length data0" using assign_at_length [OF T] lb by simp
  have val: "T ! i = (if i \<in> topWalls then 0 else if i \<in> botWalls then 1 else 0)"
    if "i < length data0" for i
    using that assign_at_nth [OF T, of i] assign_at_nth [OF b, of i] lb lz
    by (simp add: assign_all_def)
  have m: "cells_before_solve data0 botWalls topWalls =
      Inr \<lparr>heap = [T],
           heatequation = \<lparr>temperatureField = 0, fn_diffusivity = 1,
             conditions = \<lparr>variable = 0, indexSetsPerDof = [botWalls \<union> topWalls]\<rparr>\<rparr>,
           solved = 0\<rparr>"
    by (simp add: cells_before_solve_def b T Let_def)
  have "\<forall>i \<in> botWalls. T ! i = 1" using val assms by auto
  moreover have "\<forall>i \<in> topWalls. T ! i = 0" using val assms by auto
  moreover have "\<forall>i < length T. i \<notin> botWalls \<and> i \<notin> topWalls \<longrightarrow> T ! i = 0"
    using val lT by auto
  ultimately show ?thesis
    using lT by (simp add: m steady_state_heat_notebook_def heatsolver_solve_def)
qed

theorem field_before_solve_witness:
  "{0, 1, 2} \<inter> {3, 4, 5 :: nat} = {} \<and>
   (\<exists>m T. cells_before_solve [7, 7, 7, 7, 7, 7] {0, 1, 2} {3, 4, 5} = Inr m \<and>
      heap m = [T] \<and> T = [1, 1, 1, 0, 0, 0])"
proof -
  from field_before_solve [of "{0, 1, 2}" "{3, 4, 5}" "[7, 7, 7, 7, 7, 7]" "\<lambda>m. heap m"]
  obtain m T where
    *: "cells_before_solve [7, 7, 7, 7, 7, 7] {0, 1, 2} {3, 4, 5} = Inr m" "heap m = [T]"
       "length T = 6" "\<forall>i \<in> {0, 1, 2}. T ! i = 1" "\<forall>i \<in> {3, 4, 5}. T ! i = 0"
    by auto
  from *(3) obtain a b c d e f where "T = [a, b, c, d, e, f]"
    by (auto simp: length_Suc_conv eval_nat_numeral)
  with *(4,5) have "T = [1, 1, 1, 0, 0, 0]" by simp
  with * show ?thesis by auto
qed

subsection \<open>The test cells\<close>

text \<open>
  The last code of the thermal convection notebook and of the steady-state heat notebook
  compares a quantity computed by the library with an expected value, through
  \<^verbatim>\<open>np.isclose\<close>. Here \<open>'w\<close> is the model state the library keeps (mesh, fields,
  systems); a library call returns its value together with the state it leaves, and
  \<^verbatim>\<open>np.isclose\<close> is numpy's. A cell returns the exception it raised, if any, and the
  model state it leaves.
\<close>

record 'w check_lib =
  velocity_rms :: "'w \<Rightarrow> real \<times> 'w"
  integral_evaluate :: "'w \<Rightarrow> real list \<times> 'w"
  np_isclose :: "real \<Rightarrow> real \<Rightarrow> bool"

text \<open>
  \<^verbatim>\<open>if not np.isclose(stokes.velocity_rms(), 8.70754e+01): raise RuntimeError(
  "...".format(stokes.velocity_rms()))\<close>: the message calls \<^verbatim>\<open>velocity_rms\<close> a second
  time.
\<close>

definition convection_test_cell :: "'w check_lib \<Rightarrow> 'w \<Rightarrow> py_error option \<times> 'w" where
  "convection_test_cell L w =
     (let (vrms, w1) = velocity_rms L w in
      if \<not> np_isclose L vrms 87.0754 then
        (let (vrms', w2) = velocity_rms L w1 in (Some RuntimeError, w2))
      else (None, w1))"

text \<open>
  \<^verbatim>\<open>tottemp = uw.utils.Integral(temperatureField, mesh);
  avtemp = tottemp.evaluate()[0] / (boxHeight*boxLength);
  if not np.isclose(avtemp,0.5): raise RuntimeError(...)\<close>. Building the integral and
  evaluating it is one library query, \<open>integral_evaluate\<close>, which returns the list of
  values. The product \<^verbatim>\<open>boxHeight*boxLength\<close> is the constant 2.0, so the division
  cannot fail; indexing an empty result would raise \<^verbatim>\<open>IndexError\<close>.
\<close>

definition heat_test_cell :: "'w check_lib \<Rightarrow> 'w \<Rightarrow> py_error option \<times> 'w" where
  "heat_test_cell L w =
     (let (evaluated, w1) = integral_evaluate L w in
      case evaluated of
        [] \<Rightarrow> (Some IndexError, w1)
      | tot # _ \<Rightarrow>
          (let avtemp = tot / (boxHeight * boxLength) in
           if \<not> np_isclose L avtemp 0.5 then (Some RuntimeError, w1) else (None, w1)))"

text \<open>
  C10. Each test cell raises \<^verbatim>\<open>RuntimeError\<close> exactly when its check quantity is not
  close to the expected value: the RMS velocity against 87.0754 in the thermal convection
  notebook, the average temperature (the integral over the box area 2.0) against 0.5 in
  the steady-state heat notebook. Neither cell assigns to the model; given that the two
  library queries leave the model state as it is, so does each test cell, whether it
  raises or not.
\<close>

theorem test_cells_raise_iff_not_close:
  assumes "\<And>w. snd (velocity_rms L w) = w" and "\<And>w. snd (integral_evaluate L w) = w"
  shows "(fst (convection_test_cell L w) = Some RuntimeError
            \<longleftrightarrow> \<not> np_isclose L (fst (velocity_rms L w)) 87.0754) \<and>
         snd (convection_test_cell L w) = w \<and>
         (fst (heat_test_cell L w) = Some RuntimeError
            \<longleftrightarrow> (\<exists>tot rest. fst (integral_evaluate L w) = tot # rest \<and>
                   \<not> np_isclose L (tot / 2) 0.5)) \<and>
         snd (heat_test_cell L w) = w"
proof -
  obtain v w1 where v: "velocity_rms L w = (v, w1)" by (cases "velocity_rms L w")
  with assms(1) [of w] have w1: "w1 = w" by simp
  obtain t w2 where t: "integral_evaluate L w = (t, w2)" by (cases "integral_evaluate L w")
  with assms(2) [of w] have w2: "w2 = w" by simp
  show ?thesis
    by (cases t)
       (simp_all add: convection_test_cell_def heat_test_cell_def v w1 t w2 boxHeight_def
          boxLength_def)
qed

theorem test_cells_raise_iff_not_close_witness:
  "fst (convection_test_cell
      \<lparr>velocity_rms = (\<lambda>w. (w, w)), integral_evaluate = (\<lambda>w. ([w], w)),
       np_isclose = (\<lambda>a b. \<bar>a - b\<bar> \<le> 1 / 10 ^ 8 + \<bar>b\<bar> / 10 ^ 5)\<rparr> 3) = Some RuntimeError \<and>
   snd (heat_test_cell
      \<lparr>velocity_rms = (\<lambda>w. (w, w)), integral_evaluate = (\<lambda>w. ([w], w)),
       np_isclose = (\<lambda>a b. \<bar>a - b\<bar> \<le> 1 / 10 ^ 8 + \<bar>b\<bar> / 10 ^ 5)\<rparr> 1) = 1 \<and>
   fst (heat_test_cell
      \<lparr>velocity_rms = (\<lambda>w. (w, w)), integral_evaluate = (\<lambda>w. ([w], w)),
       np_isclose = (\<lambda>a b. \<bar>a - b\<bar> \<le> 1 / 10 ^ 8 + \<bar>b\<bar> / 10 ^ 5)\<rparr> 1) \<noteq> Some RuntimeError"
  using test_cells_raise_iff_not_close [of
      "\<lparr>velocity_rms = (\<lambda>w. (w, w)), integral_evaluate = (\<lambda>w. ([w], w)),
       np_isclose = (\<lambda>a b. \<bar>a - b\<bar> \<le> 1 / 10 ^ 8 + \<bar>b\<bar> / 10 ^ 5)\<rparr>" 3]
    test_cells_raise_iff_not_close [of
      "\<lparr>velocity_rms = (\<lambda>w. (w, w)), integral_evaluate = (\<lambda>w. ([w], w)),
       np_isclose = (\<lambda>a b. \<bar>a - b\<bar> \<le> 1 / 10 ^ 8 + \<bar>b\<bar> / 10 ^ 5)\<rparr>" 1]
  by simp

subsection \<open>Uplift: the prescribed basal traction\<close>











subsection \<open>Rayleigh-Taylor: the initial material index\<close>









subsection \<open>Rayleigh-Taylor: the time-stepping loop\<close>
























subsection \<open>Uplift: the time-stepping loop\<close>

text \<open>
  The library calls of the loop, on the library state \<open>'w\<close>. A query returns its value
  and the state it leaves. \<^verbatim>\<open>fn_y_minmax.reset(); fn_y_minmax.evaluate(mswarm);
  fn_y_minmax.max_global()\<close> is one query, \<open>peak_height\<close>. Printing and writing the
  output file are left out.
\<close>

record 'w uplift_lib =
  solve :: "'w \<Rightarrow> 'w"
  get_max_dt :: "'w \<Rightarrow> real \<times> 'w"
  advector_integrate :: "real \<Rightarrow> 'w \<Rightarrow> 'w"
  msAdvector_integrate :: "real \<Rightarrow> 'w \<Rightarrow> 'w"
  peak_height :: "'w \<Rightarrow> real \<times> 'w"
  stokes_velocity_rms :: "'w \<Rightarrow> real \<times> 'w"
  repopulate :: "'w \<Rightarrow> 'w"
  fig_save :: "int \<Rightarrow> 'w \<Rightarrow> 'w"

datatype uplift_call =
    SolverSolve | AdvectorGetMaxDt real | AdvectorIntegrate real | MsAdvectorIntegrate real
  | PeakHeight real | VelocityRms real | Repopulate | FigSave int

record 'w uplift_state =
  dt :: real
  steps :: int
  h0 :: real
  h1 :: real
  diffH :: real
  lib :: 'w
  called :: "uplift_call list"

definition model_end_step :: int where
  "model_end_step = 3"

text \<open>
  \<^verbatim>\<open>if dt < 0: dt = advector.get_max_dt()\<close>
\<close>

definition first_time_step :: "'w uplift_lib \<Rightarrow> 'w uplift_state \<Rightarrow> 'w uplift_state" where
  "first_time_step L st =
     (if dt st < 0 then
        (let (d, w) = get_max_dt L (lib st)
         in st\<lparr>dt := d, lib := w, called := called st @ [AdvectorGetMaxDt d]\<rparr>)
      else st)"

text \<open>The body of \<^verbatim>\<open>while steps<model_end_step\<close>, statement by statement.\<close>

definition uplift_body :: "'w uplift_lib \<Rightarrow> 'w uplift_state \<Rightarrow> 'w uplift_state" where
  "uplift_body L st =
     (let st1 = st\<lparr>lib := solve L (lib st), called := called st @ [SolverSolve]\<rparr>;
          st2 = first_time_step L st1;
          st3 = st2\<lparr>h0 := h1 st2\<rparr>;
          st4 = st3\<lparr>lib := advector_integrate L (dt st3) (lib st3),
                    called := called st3 @ [AdvectorIntegrate (dt st3)]\<rparr>;
          st5 = st4\<lparr>lib := msAdvector_integrate L (dt st4) (lib st4),
                    called := called st4 @ [MsAdvectorIntegrate (dt st4)]\<rparr>;
          (h, w6) = peak_height L (lib st5);
          st6 = st5\<lparr>h1 := h, lib := w6, called := called st5 @ [PeakHeight h]\<rparr>;
          st7 = st6\<lparr>diffH := h1 st6 - h0 st6\<rparr>;
          (vrms, w8) = stokes_velocity_rms L (lib st7);
          st8 = st7\<lparr>lib := w8, called := called st7 @ [VelocityRms vrms]\<rparr>;
          st9 = st8\<lparr>lib := repopulate L (lib st8), called := called st8 @ [Repopulate]\<rparr>;
          st10 = st9\<lparr>lib := fig_save L (steps st9) (lib st9),
                     called := called st9 @ [FigSave (steps st9)]\<rparr>
      in st10\<lparr>steps := steps st10 + 1\<rparr>)"

lemma steps_uplift_body: "steps (uplift_body L st) = steps st + 1"
  by (simp add: uplift_body_def first_time_step_def Let_def split: prod.splits)

function uplift_loop :: "'w uplift_lib \<Rightarrow> 'w uplift_state \<Rightarrow> 'w uplift_state" where
  "uplift_loop L st =
     (if steps st < model_end_step then uplift_loop L (uplift_body L st) else st)"
  by pat_completeness auto
termination
  by (relation "measure (\<lambda>(L, st). nat (model_end_step - steps st))")
     (auto simp: steps_uplift_body)

declare uplift_loop.simps [simp del]

text \<open>
  The cell: \<^verbatim>\<open>h1 = fn_y_minmax.max_global(); dt = -1.; steps = 0\<close>, then the loop.
  \<^verbatim>\<open>h0\<close> and \<^verbatim>\<open>diffH\<close> are unbound before the first iteration; each is assigned there
  before it is read, so their initial values here are never used.
\<close>

definition uplift_cell :: "'w uplift_lib \<Rightarrow> 'w \<Rightarrow> 'w uplift_state" where
  "uplift_cell L w0 =
     (let (h, w) = peak_height L w0
      in uplift_loop L \<lparr>dt = - 1, steps = 0, h0 = 0, h1 = h, diffH = 0, lib = w,
                        called = [PeakHeight h]\<rparr>)"

fun is_integrate :: "uplift_call \<Rightarrow> bool" where
  "is_integrate (AdvectorIntegrate d) = True"
| "is_integrate (MsAdvectorIntegrate d) = True"
| "is_integrate _ = False"

fun is_get_max_dt :: "uplift_call \<Rightarrow> bool" where
  "is_get_max_dt (AdvectorGetMaxDt d) = True"
| "is_get_max_dt _ = False"

text \<open>The value the first \<^verbatim>\<open>advector.get_max_dt()\<close> returns.\<close>

definition first_dt :: "'w uplift_lib \<Rightarrow> 'w \<Rightarrow> real" where
  "first_dt L w0 = fst (get_max_dt L (solve L (snd (peak_height L w0))))"

lemma body_first:
  assumes "dt st < 0"
  shows "\<exists>rest. dt (uplift_body L st) = fst (get_max_dt L (solve L (lib st))) \<and>
           steps (uplift_body L st) = steps st + 1 \<and>
           called (uplift_body L st) =
             called st @ SolverSolve # AdvectorGetMaxDt (dt (uplift_body L st)) # rest \<and>
           filter is_integrate rest =
             [AdvectorIntegrate (dt (uplift_body L st)),
              MsAdvectorIntegrate (dt (uplift_body L st))] \<and>
           filter is_get_max_dt rest = []"
  using assms
  by (simp add: uplift_body_def first_time_step_def Let_def split: prod.splits)

lemma body_later:
  assumes "\<not> dt st < 0"
  shows "\<exists>rest. dt (uplift_body L st) = dt st \<and>
           steps (uplift_body L st) = steps st + 1 \<and>
           called (uplift_body L st) = called st @ rest \<and>
           filter is_integrate rest = [AdvectorIntegrate (dt st), MsAdvectorIntegrate (dt st)] \<and>
           filter is_get_max_dt rest = []"
  using assms
  by (simp add: uplift_body_def first_time_step_def Let_def split: prod.splits)

text \<open>
  C9. When the first \<^verbatim>\<open>advector.get_max_dt()\<close> returns a non-negative value \<open>d\<close>, the
  loop of the uplift notebook ends after \<^verbatim>\<open>model_end_step = 3\<close> iterations with
  \<^verbatim>\<open>dt = d\<close>; \<^verbatim>\<open>get_max_dt\<close> was called exactly once, right after the first
  \<^verbatim>\<open>solver.solve()\<close>, and the six integrations (three of each swarm, alternating) all
  used \<open>d\<close>.
\<close>

theorem one_timestep_for_all_steps:
  assumes "0 \<le> first_dt L w0"
  shows "dt (uplift_cell L w0) = first_dt L w0 \<and>
         steps (uplift_cell L w0) = 3 \<and>
         filter is_get_max_dt (called (uplift_cell L w0)) = [AdvectorGetMaxDt (first_dt L w0)] \<and>
         take 2 (filter (\<lambda>c. c = SolverSolve \<or> is_get_max_dt c) (called (uplift_cell L w0))) =
           [SolverSolve, AdvectorGetMaxDt (first_dt L w0)] \<and>
         filter is_integrate (called (uplift_cell L w0)) =
           [AdvectorIntegrate (first_dt L w0), MsAdvectorIntegrate (first_dt L w0),
            AdvectorIntegrate (first_dt L w0), MsAdvectorIntegrate (first_dt L w0),
            AdvectorIntegrate (first_dt L w0), MsAdvectorIntegrate (first_dt L w0)]"
proof -
  obtain h w where hw: "peak_height L w0 = (h, w)" by (cases "peak_height L w0")
  let ?d = "first_dt L w0"
  let ?s0 = "\<lparr>dt = - 1, steps = 0, h0 = 0, h1 = h, diffH = 0, lib = w,
              called = [PeakHeight h]\<rparr>"
  let ?s1 = "uplift_body L ?s0"
  let ?s2 = "uplift_body L ?s1"
  let ?s3 = "uplift_body L ?s2"
  have d: "?d = fst (get_max_dt L (solve L w))" by (simp add: first_dt_def hw)
  from body_first [of ?s0 L] obtain r1 where
    1: "dt ?s1 = ?d" "steps ?s1 = 1" "called ?s1 = PeakHeight h # SolverSolve # AdvectorGetMaxDt ?d # r1"
       "filter is_integrate r1 = [AdvectorIntegrate ?d, MsAdvectorIntegrate ?d]"
       "filter is_get_max_dt r1 = []"
    by (auto simp: d)
  from assms 1(1) have n1: "\<not> dt ?s1 < 0" by simp
  from body_later [OF n1, of L] obtain r2 where
    2: "dt ?s2 = ?d" "steps ?s2 = 2" "called ?s2 = called ?s1 @ r2"
       "filter is_integrate r2 = [AdvectorIntegrate ?d, MsAdvectorIntegrate ?d]"
       "filter is_get_max_dt r2 = []"
    by (auto simp: 1)
  from assms 2(1) have n2: "\<not> dt ?s2 < 0" by simp
  from body_later [OF n2, of L] obtain r3 where
    3: "dt ?s3 = ?d" "steps ?s3 = 3" "called ?s3 = called ?s2 @ r3"
       "filter is_integrate r3 = [AdvectorIntegrate ?d, MsAdvectorIntegrate ?d]"
       "filter is_get_max_dt r3 = []"
    by (auto simp: 2)
  have "uplift_loop L ?s0 = uplift_loop L ?s1"
    by (subst uplift_loop.simps) (simp add: model_end_step_def)
  also have "\<dots> = uplift_loop L ?s2"
    by (subst uplift_loop.simps) (simp add: model_end_step_def 1(2))
  also have "\<dots> = uplift_loop L ?s3"
    by (subst uplift_loop.simps) (simp add: model_end_step_def 2(2))
  also have "\<dots> = ?s3"
    by (subst uplift_loop.simps) (simp add: model_end_step_def 3(2))
  finally have cell: "uplift_cell L w0 = ?s3"
    by (simp add: uplift_cell_def hw)
  show ?thesis
    unfolding cell using 1 2 3 by simp
qed

theorem one_timestep_for_all_steps_witness:
  "(0 :: real) \<le> first_dt
      \<lparr>solve = (\<lambda>w. w + 1), get_max_dt = (\<lambda>w. (w, w)), advector_integrate = (\<lambda>d w. w + d),
       msAdvector_integrate = (\<lambda>d w. w), peak_height = (\<lambda>w. (w, w)),
       stokes_velocity_rms = (\<lambda>w. (w, w)), repopulate = (\<lambda>w. w), fig_save = (\<lambda>n w. w)\<rparr> 1 \<and>
   dt (uplift_cell
      \<lparr>solve = (\<lambda>w. w + 1), get_max_dt = (\<lambda>w. (w, w)), advector_integrate = (\<lambda>d w. w + d),
       msAdvector_integrate = (\<lambda>d w. w), peak_height = (\<lambda>w. (w, w)),
       stokes_velocity_rms = (\<lambda>w. (w, w)), repopulate = (\<lambda>w. w), fig_save = (\<lambda>n w. w)\<rparr> 1) = 2"
  using one_timestep_for_all_steps [of
      "\<lparr>solve = (\<lambda>w. w + 1), get_max_dt = (\<lambda>w. (w, w)), advector_integrate = (\<lambda>d w. w + d),
       msAdvector_integrate = (\<lambda>d w. w), peak_height = (\<lambda>w. (w, w)),
       stokes_velocity_rms = (\<lambda>w. (w, w)), repopulate = (\<lambda>w. w), fig_save = (\<lambda>n w. w)\<rparr>" 1]
  by (simp add: first_dt_def)

end
